theory Spec2Isabelle
  imports Main
begin

section \<open>Runtime values, the logger and the chat sink\<close>

text \<open>
  The logger of \<^verbatim>\<open>logger.ts\<close> forwards to the console; the model keeps what was
  printed, with the method that printed it.
\<close>

datatype level = LOG | WARN | ERROR | DEBUG

text \<open>
  A thrown value: an error object (or another value that has a \<^verbatim>\<open>toString\<close>), kept as
  the text that \<^verbatim>\<open>toString()\<close> yields, or one of the two values that have no
  properties, \<^verbatim>\<open>null\<close> and \<^verbatim>\<open>undefined\<close> (\<^verbatim>\<open>throw null\<close> is a legal statement).
\<close>

datatype js_error = JsError string | ThrownNull | ThrownUndefined

text \<open>A call either returns a value or throws.\<close>

datatype 'r completion = Returns 'r | Throws js_error

text \<open>
  \<^verbatim>\<open>error.toString()\<close>: the description of an error object; on \<^verbatim>\<open>null\<close> and
  \<^verbatim>\<open>undefined\<close> the property read itself throws a TypeError (the wording of the
  descriptions of TypeErrors is the engine's, here and below).
\<close>

fun toString :: "js_error \<Rightarrow> string completion" where
  "toString (JsError d) = Returns d"
| "toString ThrownNull =
     Throws (JsError ''TypeError: Cannot read properties of null (reading toString)'')"
| "toString ThrownUndefined =
     Throws (JsError ''TypeError: Cannot read properties of undefined (reading toString)'')"

text \<open>What the console prints for a value handed to the logger.\<close>

fun inspect :: "js_error \<Rightarrow> string" where
  "inspect (JsError d) = d"
| "inspect ThrownNull = ''null''"
| "inspect ThrownUndefined = ''undefined''"

text \<open>
  The part of a \<^verbatim>\<open>discordjs.Message\<close> that \<^verbatim>\<open>parse\<close> reads: \<^verbatim>\<open>message.content\<close>
  and \<^verbatim>\<open>message.author.bot\<close>.
\<close>

record Message =
  content :: string
  author_bot :: bool

text \<open>
  Everything outside the object whose method runs: the console, the replies sent with
  \<^verbatim>\<open>message.reply\<close> (the message replied to and the text), and the rest of the world
  \<open>ext\<close> that callbacks act on (plugin state, channels). Handlers and command actions
  are functions on this environment; they may log and reply themselves.
\<close>

record 'w env =
  console :: "(level \<times> string) list"
  replies :: "(Message \<times> string) list"
  ext :: 'w

definition logger :: "level \<Rightarrow> string \<Rightarrow> 'w env \<Rightarrow> 'w env" where
  "logger l s e = e\<lparr>console := console e @ [(l, s)]\<rparr>"

definition reply :: "Message \<Rightarrow> string \<Rightarrow> 'w env \<Rightarrow> 'w env" where
  "reply m s e = e\<lparr>replies := replies e @ [(m, s)]\<rparr>"

section \<open>Hashtable: a plain object indexed by strings\<close>

text \<open>
  \<^verbatim>\<open>Hashtable<T>\<close> is \<^verbatim>\<open>{ [key: string]: T }\<close> and every table of the program is created
  as \<^verbatim>\<open>{}\<close>. The map holds the table's own properties. Reading \<^verbatim>\<open>table[key]\<close> on an
  object created as \<^verbatim>\<open>{}\<close> also finds the members of \<^verbatim>\<open>Object.prototype\<close>: for these
  keys the read is not \<^verbatim>\<open>undefined\<close> although the table has no entry, and what is
  read is no \<open>T\<close> (it has no \<^verbatim>\<open>execute\<close> method). This is the table of Events, where
  the one write \<^verbatim>\<open>this.events[event_name] = ...\<close> is reached only after the read of that
  name was \<^verbatim>\<open>undefined\<close>, hence never under an inherited name: there a write makes the
  name an own property. (The command table, which is written under any name, has its
  own model below.)
\<close>

type_synonym 'a Hashtable = "string \<rightharpoonup> 'a"

definition object_prototype_members :: "string list" where
  "object_prototype_members =
     [''constructor'', ''hasOwnProperty'', ''isPrototypeOf'', ''propertyIsEnumerable'',
      ''toLocaleString'', ''toString'', ''valueOf'', ''__proto__'',
      ''__defineGetter__'', ''__defineSetter__'', ''__lookupGetter__'', ''__lookupSetter__'']"

datatype 'a slot = Undefined | Own 'a | Inherited

definition index :: "'a Hashtable \<Rightarrow> string \<Rightarrow> 'a slot" where
  "index t k =
     (case t k of
        Some v \<Rightarrow> Own v
      | None \<Rightarrow> if k \<in> set object_prototype_members then Inherited else Undefined)"

section \<open>events.ts: Event and Events\<close>

text \<open>
  An Event holds its name and its action. The action takes the emitted arguments, acts
  on the environment and returns a result (\<open>None\<close> is \<^verbatim>\<open>undefined\<close>) or throws.
\<close>

type_synonym ('a, 'r, 'w) handler = "'a list \<Rightarrow> 'w env \<Rightarrow> 'r option completion \<times> 'w env"

record ('a, 'r, 'w) Event =
  name :: string
  action :: "('a, 'r, 'w) handler"

definition new_Event :: "string \<Rightarrow> ('a, 'r, 'w) handler \<Rightarrow> ('a, 'r, 'w) Event" where
  "new_Event n a = \<lparr>Event.name = n, action = a\<rparr>"

definition Event_execute ::
  "('a, 'r, 'w) Event \<Rightarrow> 'a list \<Rightarrow> 'w env \<Rightarrow> 'r option completion \<times> 'w env" where
  "Event_execute ev args e = Event.action ev args e"

record ('a, 'r, 'w) Events =
  events :: "('a, 'r, 'w) Event Hashtable"

definition new_Events :: "('a, 'r, 'w) Events" where
  "new_Events = \<lparr>events = Map.empty\<rparr>"

definition check :: "string \<Rightarrow> ('a, 'r, 'w) Events \<Rightarrow> bool" where
  "check event_name E = (index (events E) event_name \<noteq> Undefined)"

definition on ::
  "string \<Rightarrow> ('a, 'r, 'w) handler \<Rightarrow> ('a, 'r, 'w) Events \<times> 'w env
     \<Rightarrow> ('a, 'r, 'w) Events \<times> 'w env" where
  "on event_name act s =
     (case s of (E, e) \<Rightarrow>
        if index (events E) event_name \<noteq> Undefined
        then (E, logger WARN (''[EVENTS] Duplicate event_name: '' @ event_name) e)
        else (E\<lparr>events := (events E)(event_name \<mapsto> new_Event event_name act)\<rparr>, e))"

text \<open>
  \<^verbatim>\<open>emit\<close>: when the read of \<^verbatim>\<open>this.events[event_name]\<close> is an inherited member of
  \<^verbatim>\<open>Object.prototype\<close>, it is not \<^verbatim>\<open>undefined\<close>, and the call of its missing
  \<^verbatim>\<open>execute\<close> throws a TypeError (the wording of the description is the engine's).
\<close>

definition emit ::
  "string \<Rightarrow> 'a list \<Rightarrow> ('a, 'r, 'w) Events \<times> 'w env
     \<Rightarrow> 'r option completion \<times> ('a, 'r, 'w) Events \<times> 'w env" where
  "emit event_name args s =
     (case s of (E, e) \<Rightarrow>
        (case index (events E) event_name of
           Own event \<Rightarrow> (case Event_execute event args e of (r, e') \<Rightarrow> (r, E, e'))
         | Inherited \<Rightarrow> (Throws (JsError ''TypeError: event.execute is not a function''), E, e)
         | Undefined \<Rightarrow>
             (Returns None, E,
              logger ERROR (''No event named: '' @ event_name @ '' was found.'') e)))"

text \<open>A sequence of registrations, in order.\<close>

fun on_all ::
  "(string \<times> ('a, 'r, 'w) handler) list \<Rightarrow> ('a, 'r, 'w) Events \<times> 'w env
     \<Rightarrow> ('a, 'r, 'w) Events \<times> 'w env" where
  "on_all [] s = s"
| "on_all ((n, h) # regs) s = on_all regs (on n h s)"

section \<open>system.ts: the System base class\<close>

text \<open>
  Values held in fields and passed on the bus. \<open>EventsRef r\<close> is a reference to the live
  Events registry \<open>r\<close>; \<open>Obj\<close> is an object given by its own enumerable properties.
\<close>

datatype Any = Undef | Null | Bool bool | Num int | Str string | EventsRef nat
  | Obj "string \<Rightarrow> Any option"

text \<open>A System instance, given by its own properties (\<^verbatim>\<open>events\<close>, \<^verbatim>\<open>name\<close>, and a
  subclass's fields).\<close>

type_synonym System = "string \<rightharpoonup> Any"

definition refers_to_registry :: "Any \<Rightarrow> bool" where
  "refers_to_registry v = (case v of EventsRef r \<Rightarrow> True | _ \<Rightarrow> False)"

text \<open>
  The constructor logs, sets the two fields and, when \<^verbatim>\<open>serialize === true\<close>, emits
  \<^verbatim>\<open>serialize::register\<close> with the name and the instance (as it is at that moment).
  A throw of the emit leaves the constructor.
\<close>

definition new_System ::
  "nat \<Rightarrow> string \<Rightarrow> bool \<Rightarrow> (Any, 'r, 'w) Events \<times> 'w env
     \<Rightarrow> System completion \<times> (Any, 'r, 'w) Events \<times> 'w env" where
  "new_System events_ref sys_name serialize_flag s =
     (case s of (E, e) \<Rightarrow>
        let e1 = logger LOG (''[SYSTEM] Creating '' @ sys_name @ '' System.'') e;
            this = [''events'' \<mapsto> EventsRef events_ref, ''name'' \<mapsto> Str sys_name]
        in if serialize_flag
           then (case emit ''serialize::register'' [Str sys_name, Obj this] (E, e1) of
                   (Returns r, s') \<Rightarrow> (Returns this, s')
                 | (Throws err, s') \<Rightarrow> (Throws err, s'))
           else (Returns this, E, e1))"

text \<open>\<^verbatim>\<open>serialize\<close>: the clone \<^verbatim>\<open>{ ...this }\<close> with \<^verbatim>\<open>delete clone.event_manager\<close>.\<close>

definition serialize :: "System \<Rightarrow> System" where
  "serialize this = (let clone = this in clone(''event_manager'' := None))"

text \<open>
  \<^verbatim>\<open>deserialize\<close>: the object read from a file is given by its properties in order;
  \<^verbatim>\<open>Object.keys\<close> lists each key once and \<^verbatim>\<open>obj[k]\<close> reads its value.

  The assignment \<^verbatim>\<open>this[k] = v\<close> on the instance: a field that exists is overwritten and
  a new name becomes a field, except for the name \<^verbatim>\<open>__proto__\<close>. Unless the instance has
  a field of that name, this assignment goes to the setter inherited from
  \<^verbatim>\<open>Object.prototype\<close>, which replaces the prototype of the instance (or ignores a value
  that is neither an object nor \<^verbatim>\<open>null\<close>) and makes no field. The prototype is not
  among the fields of a \<open>System\<close>; the values of a snapshot are plain data, so a replaced
  prototype brings no setter of its own, and the later writes of the loop are field
  writes as before.
\<close>

definition Object_keys :: "(string \<times> Any) list \<Rightarrow> string list" where
  "Object_keys obj = remdups (map fst obj)"

definition get :: "(string \<times> Any) list \<Rightarrow> string \<Rightarrow> Any" where
  "get obj k = (case map_of obj k of Some v \<Rightarrow> v | None \<Rightarrow> Undef)"

definition to_setter :: "string \<Rightarrow> System \<Rightarrow> bool" where
  "to_setter k this = (k = ''__proto__'' \<and> this k = None)"

definition assign :: "string \<Rightarrow> Any \<Rightarrow> System \<Rightarrow> System" where
  "assign k v this = (if to_setter k this then this else this(k \<mapsto> v))"

definition deserialize :: "(string \<times> Any) list \<Rightarrow> System \<Rightarrow> System" where
  "deserialize obj this = fold (\<lambda>k this. assign k (get obj k) this) (Object_keys obj) this"

section \<open>command.ts: Command and CommandManager\<close>

subsection \<open>The command table\<close>

text \<open>
  Command objects are referred to by address (the type \<open>'c\<close>); a store, handed to the
  methods as \<open>heap\<close>, gives the object at an address.

  \<^verbatim>\<open>this.commands\<close> is created as \<^verbatim>\<open>{}\<close> and written under the name of any Command, with no
  test before the write. The table is given by its own properties and by its prototype:
  \<open>proto = None\<close> is \<^verbatim>\<open>Object.prototype\<close>, as for every object created as \<^verbatim>\<open>{}\<close>, and
  \<open>proto = Some p\<close> is the Command \<open>p\<close>, once a write under \<^verbatim>\<open>__proto__\<close> has made it the
  prototype.
\<close>

record 'c CommandTable =
  own :: "string \<rightharpoonup> 'c"
  proto :: "'c option"

definition new_CommandTable :: "'c CommandTable" where
  "new_CommandTable = \<lparr>own = Map.empty, proto = None\<rparr>"

text \<open>The fields of a CommandManager: those of System (\<open>events\<close> is the reference to the
  registry, handed to every action) and its own.\<close>

record ('c, 'ev) CommandManager =
  events :: 'ev
  name :: string
  commands :: "'c CommandTable"
  commands_dir :: string
  prefix :: string

text \<open>
  A Command's action takes the event manager, the message and the arguments. It acts on
  the environment and, through the event manager (\<^verbatim>\<open>commands::add\<close>,
  \<^verbatim>\<open>commands::parse\<close>), on the manager that dispatched it: it is a function on both.
  \<open>name = None\<close> is a command whose name is \<^verbatim>\<open>undefined\<close>.
\<close>

record ('c, 'ev, 'w) Command =
  name :: "string option"
  description :: string
  action :: "'ev \<Rightarrow> Message \<Rightarrow> string list \<Rightarrow> ('c, 'ev) CommandManager \<times> 'w env
               \<Rightarrow> unit completion \<times> ('c, 'ev) CommandManager \<times> 'w env"

definition new_Command ::
  "string \<Rightarrow> string
     \<Rightarrow> ('ev \<Rightarrow> Message \<Rightarrow> string list \<Rightarrow> ('c, 'ev) CommandManager \<times> 'w env
          \<Rightarrow> unit completion \<times> ('c, 'ev) CommandManager \<times> 'w env)
     \<Rightarrow> ('c, 'ev, 'w) Command" where
  "new_Command n d callable = \<lparr>Command.name = Some n, description = d, action = callable\<rparr>"

definition Command_execute ::
  "('c, 'ev, 'w) Command \<Rightarrow> 'ev \<Rightarrow> Message \<Rightarrow> string list \<Rightarrow> ('c, 'ev) CommandManager \<times> 'w env
     \<Rightarrow> unit completion \<times> ('c, 'ev) CommandManager \<times> 'w env" where
  "Command_execute c event_manager message args s = Command.action c event_manager message args s"

text \<open>
  The read \<^verbatim>\<open>this.commands[key]\<close> gives \<^verbatim>\<open>undefined\<close>, a Command, or some other value
  (a function, a string, \<^verbatim>\<open>Object.prototype\<close>), which has no \<^verbatim>\<open>execute\<close> method.
\<close>

datatype 'c read = Undefined_read | Entry 'c | Other

text \<open>
  An own property wins. Otherwise the prototype chain is searched. With
  \<^verbatim>\<open>Object.prototype\<close> as prototype the inherited members are found. With a Command
  \<open>p\<close> as prototype the chain is \<open>p\<close>, \<^verbatim>\<open>Command.prototype\<close>, \<^verbatim>\<open>Object.prototype\<close>:
  \<^item> \<^verbatim>\<open>__proto__\<close> reads the prototype, the Command \<open>p\<close> itself;
  \<^item> \<^verbatim>\<open>_name\<close>, \<^verbatim>\<open>_description\<close>, \<^verbatim>\<open>action\<close> are the fields of \<open>p\<close> (\<^verbatim>\<open>_name\<close> may hold
    \<^verbatim>\<open>undefined\<close>);
  \<^item> \<^verbatim>\<open>name\<close> and \<^verbatim>\<open>description\<close> are the getters of the class, run on the table: they
    read \<^verbatim>\<open>_name\<close> and \<^verbatim>\<open>_description\<close> of the table, which is an own entry if there is
    one and the field of \<open>p\<close> otherwise;
  \<^item> \<^verbatim>\<open>execute\<close> and \<^verbatim>\<open>constructor\<close> are members of the class, and the members of
    \<^verbatim>\<open>Object.prototype\<close> are found last.
\<close>

definition table_read ::
  "('c \<Rightarrow> ('c, 'ev, 'w) Command) \<Rightarrow> 'c CommandTable \<Rightarrow> string \<Rightarrow> 'c read" where
  "table_read heap t k =
     (case own t k of
        Some c \<Rightarrow> Entry c
      | None \<Rightarrow>
          (case proto t of
             None \<Rightarrow> if k \<in> set object_prototype_members then Other else Undefined_read
           | Some p \<Rightarrow>
               if k = ''__proto__'' then Entry p
               else if k = ''_name'' then
                 (case Command.name (heap p) of None \<Rightarrow> Undefined_read | Some n \<Rightarrow> Other)
               else if k \<in> set [''_description'', ''action'', ''execute'', ''constructor''] then Other
               else if k = ''name'' then
                 (case own t ''_name'' of
                    Some c \<Rightarrow> Entry c
                  | None \<Rightarrow>
                      (case Command.name (heap p) of None \<Rightarrow> Undefined_read | Some n \<Rightarrow> Other))
               else if k = ''description'' then
                 (case own t ''_description'' of Some c \<Rightarrow> Entry c | None \<Rightarrow> Other)
               else if k \<in> set object_prototype_members then Other
               else Undefined_read))"

text \<open>
  The write \<^verbatim>\<open>this.commands[key] = command\<close>, in the strict mode of a class body. An own
  property is overwritten. Otherwise the chain decides: under \<^verbatim>\<open>__proto__\<close> the setter of
  \<^verbatim>\<open>Object.prototype\<close> runs and makes the Command the prototype of the table, and no
  property is made; with a Command as prototype, \<^verbatim>\<open>name\<close> and \<^verbatim>\<open>description\<close> are
  inherited getters without a setter, and the write throws a TypeError; under every
  other name the write makes an own property.
\<close>

definition getter_only :: "'c CommandTable \<Rightarrow> string \<Rightarrow> bool" where
  "getter_only t k = (own t k = None \<and> proto t \<noteq> None \<and> k \<in> set [''name'', ''description''])"

definition table_write :: "string \<Rightarrow> 'c \<Rightarrow> 'c CommandTable \<Rightarrow> 'c CommandTable completion" where
  "table_write k c t =
     (case own t k of
        Some old \<Rightarrow> Returns (t\<lparr>own := (own t)(k \<mapsto> c)\<rparr>)
      | None \<Rightarrow>
          if k = ''__proto__'' then Returns (t\<lparr>proto := Some c\<rparr>)
          else if getter_only t k
          then Throws (JsError (''TypeError: Cannot set property '' @ k @
                                 '' of #<Object> which has only a getter''))
          else Returns (t\<lparr>own := (own t)(k \<mapsto> c)\<rparr>))"

subsection \<open>add\<close>

text \<open>\<^verbatim>\<open>add\<close>: nothing for a name that is \<^verbatim>\<open>undefined\<close>; otherwise the name is logged and
  the table is written. A throw of the write leaves \<^verbatim>\<open>add\<close>.\<close>

definition add ::
  "('c \<Rightarrow> ('c, 'ev, 'w) Command) \<Rightarrow> 'c \<Rightarrow> ('c, 'ev) CommandManager \<times> 'w env
     \<Rightarrow> unit completion \<times> ('c, 'ev) CommandManager \<times> 'w env" where
  "add heap command s =
     (case s of (this, e) \<Rightarrow>
        (case Command.name (heap command) of
           None \<Rightarrow> (Returns (), this, e)
         | Some n \<Rightarrow>
             (case table_write n command (commands this) of
                Returns t \<Rightarrow> (Returns (), this\<lparr>commands := t\<rparr>, logger DEBUG n e)
              | Throws err \<Rightarrow> (Throws err, this, logger DEBUG n e))))"

subsection \<open>The string operations of parse\<close>

definition startsWith :: "string \<Rightarrow> string \<Rightarrow> bool" where
  "startsWith s p = (take (length p) s = p)"

definition slice :: "string \<Rightarrow> nat \<Rightarrow> string" where
  "slice s n = drop n s"

text \<open>
  \<^verbatim>\<open>trim\<close> removes white space and line terminators at both ends. A \<open>char\<close> stands for
  the code unit of the same number, so these are tab, line feed, vertical tab, form
  feed, carriage return, space and no-break space.
\<close>

definition is_whitespace :: "char \<Rightarrow> bool" where
  "is_whitespace c = (of_char c \<in> {9, 10, 11, 12, 13, 32, 160 :: nat})"

definition trim :: "string \<Rightarrow> string" where
  "trim s = rev (dropWhile is_whitespace (rev (dropWhile is_whitespace s)))"

text \<open>
  \<^verbatim>\<open>split(/ +/)\<close>: the pieces between the maximal runs of the space character. A run at
  the start or the end leaves an empty piece there, and the empty string gives one
  empty piece (so the array is never empty).
\<close>

function split_spaces :: "string \<Rightarrow> string list" where
  "split_spaces [] = [[]]"
| "split_spaces (c # cs) =
     (if c = CHR '' ''
      then [] # split_spaces (dropWhile (\<lambda>d. d = CHR '' '') cs)
      else (case split_spaces cs of
              [] \<Rightarrow> [[c]]
            | t # ts \<Rightarrow> (c # t) # ts))"
  by pat_completeness auto
termination
  by (relation "measure length") (auto simp: less_Suc_eq_le length_dropWhile_le)

text \<open>\<^verbatim>\<open>args.shift()\<close>: the first element (\<^verbatim>\<open>undefined\<close> on an empty array) and the rest.\<close>

definition shift :: "'a list \<Rightarrow> 'a option \<times> 'a list" where
  "shift xs = (case xs of [] \<Rightarrow> (None, []) | x # rest \<Rightarrow> (Some x, rest))"

subsection \<open>parse\<close>

text \<open>A \<^verbatim>\<open>try\<close> block with its \<^verbatim>\<open>catch\<close>: the handler runs on the state the body left
  when it threw, and what the handler throws leaves the statement.\<close>

definition try_catch ::
  "('s \<Rightarrow> 'r completion \<times> 's) \<Rightarrow> (js_error \<Rightarrow> 's \<Rightarrow> 'r completion \<times> 's) \<Rightarrow> 's
     \<Rightarrow> 'r completion \<times> 's" where
  "try_catch body handler s =
     (case body s of
        (Returns r, s') \<Rightarrow> (Returns r, s')
      | (Throws err, s') \<Rightarrow> handler err s')"

text \<open>
  The call \<^verbatim>\<open>this.commands[command].execute(this.events, message, args)\<close> on what the
  table read gives: a Command runs its action; another value has no \<^verbatim>\<open>execute\<close>, and
  the call throws a TypeError.
\<close>

fun call_execute ::
  "('c \<Rightarrow> ('c, 'ev, 'w) Command) \<Rightarrow> 'c read \<Rightarrow> 'ev \<Rightarrow> Message \<Rightarrow> string list
     \<Rightarrow> ('c, 'ev) CommandManager \<times> 'w env \<Rightarrow> unit completion \<times> ('c, 'ev) CommandManager \<times> 'w env" where
  "call_execute heap (Entry c) ev m args s = Command_execute (heap c) ev m args s"
| "call_execute heap Other ev m args s =
     (Throws (JsError ''TypeError: this.commands[command].execute is not a function''), s)"
| "call_execute heap Undefined_read ev m args s =
     (Throws (JsError ''TypeError: Cannot read properties of undefined (reading execute)''), s)"

text \<open>
  The \<^verbatim>\<open>catch\<close> block: \<^verbatim>\<open>logger.error(error)\<close>, then \<^verbatim>\<open>message.reply(error.toString())\<close>.
  When \<^verbatim>\<open>error.toString()\<close> throws, no reply is sent and the TypeError leaves \<^verbatim>\<open>parse\<close>.
\<close>

definition catch_block ::
  "Message \<Rightarrow> js_error \<Rightarrow> ('c, 'ev) CommandManager \<times> 'w env
     \<Rightarrow> unit completion \<times> ('c, 'ev) CommandManager \<times> 'w env" where
  "catch_block message error s =
     (case s of (this, e) \<Rightarrow>
        (case toString error of
           Returns d \<Rightarrow> (Returns (), this, reply message d (logger ERROR (inspect error) e))
         | Throws type_error \<Rightarrow> (Throws type_error, this, logger ERROR (inspect error) e)))"

text \<open>
  \<^verbatim>\<open>parse\<close>. The two branches on \<^verbatim>\<open>Array.isArray(args)\<close> make the same call.
\<close>

definition parse ::
  "('c \<Rightarrow> ('c, 'ev, 'w) Command) \<Rightarrow> Message \<Rightarrow> ('c, 'ev) CommandManager \<times> 'w env
     \<Rightarrow> unit completion \<times> ('c, 'ev) CommandManager \<times> 'w env" where
  "parse heap message s =
     (case s of (this, e) \<Rightarrow>
        if startsWith (content message) (prefix this) = False then (Returns (), this, e)
        else if author_bot message then (Returns (), this, e)
        else
          (case shift (split_spaces (trim (slice (content message) (length (prefix this))))) of
             (None, args) \<Rightarrow> (Returns (), this, e)
           | (Some command, args) \<Rightarrow>
               if table_read heap (commands this) command = Undefined_read
               then (Returns (), this, e)
               else
                 try_catch
                   (\<lambda>(this, e).
                       call_execute heap (table_read heap (commands this) command)
                         (CommandManager.events this) message args
                         (this, logger LOG (''[COMMANDS] Executing: '' @ command) e))
                   (catch_block message)
                   (this, e)))"

subsection \<open>The tokenization in the specification's words\<close>

text \<open>
  The specification describes the tokens as the pieces between runs of white space.
  \<open>split_whitespace\<close> is that reading, for comparison with \<open>split_spaces\<close>; no
  function of the program corresponds to it.
\<close>

function split_whitespace :: "string \<Rightarrow> string list" where
  "split_whitespace [] = [[]]"
| "split_whitespace (c # cs) =
     (if is_whitespace c
      then [] # split_whitespace (dropWhile is_whitespace cs)
      else (case split_whitespace cs of
              [] \<Rightarrow> [[c]]
            | t # ts \<Rightarrow> (c # t) # ts))"
  by pat_completeness auto
termination
  by (relation "measure length") (auto simp: less_Suc_eq_le length_dropWhile_le)

section \<open>Example data\<close>

definition empty_env :: "string list list env" where
  "empty_env = \<lparr>console = [], replies = [], ext = []\<rparr>"

text \<open>Two handlers that record their run in the world and return different results.\<close>

definition first_handler :: "(Any, nat, string list list) handler" where
  "first_handler args e = (Returns (Some 1), e\<lparr>ext := ext e @ [[''first'']]\<rparr>)"

definition second_handler :: "(Any, nat, string list list) handler" where
  "second_handler args e = (Returns (Some 2), e\<lparr>ext := ext e @ [[''second'']]\<rparr>)"

definition ping_registry :: "(Any, nat, string list list) Events" where
  "ping_registry = \<lparr>Events.events = [''ping'' \<mapsto> new_Event ''ping'' first_handler]\<rparr>"

text \<open>The instance of the example plugin with \<^verbatim>\<open>state\<close> 3, a serializer that records what
  it is given, and a registry on which it is bound.\<close>

definition example_plugin :: System where
  "example_plugin = [''events'' \<mapsto> EventsRef 0, ''name'' \<mapsto> Str ''ExampleName'', ''state'' \<mapsto> Num 3]"

definition recording_serializer :: "(Any, nat, Any list list) handler" where
  "recording_serializer args e = (Returns None, e\<lparr>ext := ext e @ [args]\<rparr>)"

definition serializer_registry :: "(Any, nat, Any list list) Events" where
  "serializer_registry =
     \<lparr>Events.events = [''serialize::register'' \<mapsto> new_Event ''serialize::register'' recording_serializer]\<rparr>"

definition no_emissions :: "Any list list env" where
  "no_emissions = \<lparr>console = [], replies = [], ext = []\<rparr>"

text \<open>
  A store of Commands and a manager with prefix \<^verbatim>\<open>!\<close> on which the first four are
  registered. The actions of \<^verbatim>\<open>echo\<close> and \<^verbatim>\<open>ping\<close> record the arguments they are called
  with; that of \<^verbatim>\<open>boom\<close> records them and throws an Error; that of \<^verbatim>\<open>null\<close> throws
  \<^verbatim>\<open>null\<close>; that of \<^verbatim>\<open>late\<close> registers the Command at address 5 as \<^verbatim>\<open>commands::add\<close>
  does (log line and table) and then throws.
\<close>

definition record_args ::
  "nat \<Rightarrow> Message \<Rightarrow> string list \<Rightarrow> (nat, nat) CommandManager \<times> string list list env
     \<Rightarrow> unit completion \<times> (nat, nat) CommandManager \<times> string list list env" where
  "record_args event_manager message args s =
     (case s of (this, e) \<Rightarrow> (Returns (), this, e\<lparr>ext := ext e @ [args]\<rparr>))"

definition boom ::
  "nat \<Rightarrow> Message \<Rightarrow> string list \<Rightarrow> (nat, nat) CommandManager \<times> string list list env
     \<Rightarrow> unit completion \<times> (nat, nat) CommandManager \<times> string list list env" where
  "boom event_manager message args s =
     (case s of (this, e) \<Rightarrow> (Throws (JsError ''Error: boom''), this, e\<lparr>ext := ext e @ [args]\<rparr>))"

definition throw_null ::
  "nat \<Rightarrow> Message \<Rightarrow> string list \<Rightarrow> (nat, nat) CommandManager \<times> string list list env
     \<Rightarrow> unit completion \<times> (nat, nat) CommandManager \<times> string list list env" where
  "throw_null event_manager message args s = (Throws ThrownNull, s)"

definition register_then_throw ::
  "nat \<Rightarrow> Message \<Rightarrow> string list \<Rightarrow> (nat, nat) CommandManager \<times> string list list env
     \<Rightarrow> unit completion \<times> (nat, nat) CommandManager \<times> string list list env" where
  "register_then_throw event_manager message args s =
     (case s of (this, e) \<Rightarrow>
        (Throws (JsError ''Error: late''),
         this\<lparr>commands := (commands this)\<lparr>own := (own (commands this))(''later'' \<mapsto> 5)\<rparr>\<rparr>,
         logger DEBUG ''later'' e))"

definition example_heap :: "nat \<Rightarrow> (nat, nat, string list list) Command" where
  "example_heap a =
     (if a = 0 then new_Command ''echo'' ''repeats its arguments'' record_args
      else if a = 1 then new_Command ''ping'' ''answers'' record_args
      else if a = 2 then new_Command ''boom'' ''fails'' boom
      else if a = 3 then new_Command ''null'' ''throws null'' throw_null
      else if a = 4 then new_Command ''late'' ''registers, then fails'' register_then_throw
      else if a = 5 then new_Command ''later'' ''registered by late'' record_args
      else if a = 6 then new_Command ''echo'' ''a second echo'' boom
      else if a = 7 then new_Command [] ''runs on the bare prefix'' record_args
      else if a = 8 then new_Command ''__proto__'' ''becomes the prototype'' record_args
      else if a = 9 then new_Command ''name'' ''met by the getter'' record_args
      else \<lparr>Command.name = None, description = ''has no name'', action = record_args\<rparr>)"

definition example_manager :: "(nat, nat) CommandManager" where
  "example_manager =
     \<lparr>CommandManager.events = 0, CommandManager.name = ''CommandManager'',
      commands = \<lparr>own = [''echo'' \<mapsto> 0, ''ping'' \<mapsto> 1, ''boom'' \<mapsto> 2, ''null'' \<mapsto> 3, ''late'' \<mapsto> 4],
                  proto = None\<rparr>,
      commands_dir = ''commands/'', prefix = ''!''\<rparr>"

definition human :: "string \<Rightarrow> Message" where
  "human s = \<lparr>content = s, author_bot = False\<rparr>"

section \<open>Properties of Events\<close>

lemma index_Own_iff: "index t k = Own v \<longleftrightarrow> t k = Some v"
  by (simp add: index_def split: option.splits)

lemma index_Undefined_iff:
  "index t k = Undefined \<longleftrightarrow> t k = None \<and> k \<notin> set object_prototype_members"
  by (simp add: index_def split: option.splits)

lemma on_bound:
  "index (Events.events E) n = Own ev \<Longrightarrow>
   on n h (E, e) = (E, logger WARN (''[EVENTS] Duplicate event_name: '' @ n) e)"
  by (simp add: on_def)

lemma on_fresh:
  "index (Events.events E) n = Undefined \<Longrightarrow>
   on n h (E, e) = (E\<lparr>Events.events := (Events.events E)(n \<mapsto> new_Event n h)\<rparr>, e)"
  by (simp add: on_def)

lemma emit_bound:
  "index (Events.events E) n = Own ev \<Longrightarrow>
   emit n args (E, e) = (case Event.action ev args e of (r, e') \<Rightarrow> (r, E, e'))"
  by (simp add: emit_def Event_execute_def)

lemma emit_miss:
  "index (Events.events E) n = Undefined \<Longrightarrow>
   emit n args (E, e) =
     (Returns None, E, logger ERROR (''No event named: '' @ n @ '' was found.'') e)"
  by (simp add: emit_def)

lemma events_on:
  "Events.events (fst (on n h (E, e))) =
     (if index (Events.events E) n = Undefined then (Events.events E)(n \<mapsto> new_Event n h) else Events.events E)"
  by (simp add: on_def)

lemma events_on_all:
  "Events.events (fst (on_all regs (E, e))) k =
     (case Events.events E k of
        Some ev \<Rightarrow> Some ev
      | None \<Rightarrow> if k \<in> set object_prototype_members then None
                else map_option (new_Event k) (map_of regs k))"
proof (induction regs arbitrary: E e)
  case Nil
  then show ?case by (simp split: option.splits)
next
  case (Cons r regs)
  obtain n h where r: "r = (n, h)" by (cases r)
  obtain E' e' where step: "on n h (E, e) = (E', e')" by (cases "on n h (E, e)")
  have E': "Events.events E' =
      (if index (Events.events E) n = Undefined then (Events.events E)(n \<mapsto> new_Event n h) else Events.events E)"
    using events_on [of n h E e] step by simp
  have "Events.events (fst (on_all (r # regs) (E, e))) k = Events.events (fst (on_all regs (E', e'))) k"
    by (simp add: r step)
  also have "\<dots> = (case Events.events E' k of
        Some ev \<Rightarrow> Some ev
      | None \<Rightarrow> if k \<in> set object_prototype_members then None
                else map_option (new_Event k) (map_of regs k))"
    by (rule Cons.IH)
  also have "\<dots> = (case Events.events E k of
        Some ev \<Rightarrow> Some ev
      | None \<Rightarrow> if k \<in> set object_prototype_members then None
                else map_option (new_Event k) (map_of (r # regs) k))"
    by (auto simp: E' r index_Undefined_iff split: option.splits)
  finally show ?case .
qed

text \<open>
  C3. Registering under a name that is already bound only logs the duplicate: the
  registry is as before, and an emit of the name afterwards runs the handler bound
  first (the environment after the emit is that handler's, applied once). Hence, for
  the registry built from an empty one by any sequence of registrations, the event bound
  under a name is the one made by the first registration of that name in the sequence.
\<close>

theorem on_duplicate_first_wins:
  "(index (Events.events E) n = Own ev \<longrightarrow>
      on n h (E, e) = (E, e\<lparr>console := console e @ [(WARN, ''[EVENTS] Duplicate event_name: '' @ n)]\<rparr>)
      \<and> emit n args (on n h (E, e)) =
          (case Event.action ev args
                  (e\<lparr>console := console e @ [(WARN, ''[EVENTS] Duplicate event_name: '' @ n)]\<rparr>)
           of (r, e') \<Rightarrow> (r, E, e')))
   \<and> Events.events (fst (on_all regs (new_Events, e0))) k =
       (if k \<in> set object_prototype_members then None
        else map_option (new_Event k) (map_of regs k))"
proof -
  have "Events.events (fst (on_all regs (new_Events, e0))) k =
       (if k \<in> set object_prototype_members then None
        else map_option (new_Event k) (map_of regs k))"
    using events_on_all [of regs new_Events e0 k] by (simp add: new_Events_def)
  moreover have "index (Events.events E) n = Own ev \<longrightarrow>
      on n h (E, e) = (E, e\<lparr>console := console e @ [(WARN, ''[EVENTS] Duplicate event_name: '' @ n)]\<rparr>)
      \<and> emit n args (on n h (E, e)) =
          (case Event.action ev args
                  (e\<lparr>console := console e @ [(WARN, ''[EVENTS] Duplicate event_name: '' @ n)]\<rparr>)
           of (r, e') \<Rightarrow> (r, E, e'))"
    by (simp add: on_bound emit_bound logger_def)
  ultimately show ?thesis by blast
qed

theorem on_duplicate_first_wins_witness:
  "index (Events.events ping_registry) ''ping'' = Own (new_Event ''ping'' first_handler)
   \<and> on ''ping'' second_handler (ping_registry, empty_env) =
       (ping_registry,
        \<lparr>console = [(WARN, ''[EVENTS] Duplicate event_name: ping'')], replies = [], ext = []\<rparr>)
   \<and> emit ''ping'' [] (on ''ping'' second_handler (ping_registry, empty_env)) =
       (Returns (Some 1), ping_registry,
        \<lparr>console = [(WARN, ''[EVENTS] Duplicate event_name: ping'')], replies = [],
         ext = [[''first'']]\<rparr>)
   \<and> Events.events
         (fst (on_all [(''ping'', first_handler), (''ping'', second_handler)]
                 (new_Events, empty_env))) ''ping'' =
       Some (new_Event ''ping'' first_handler)"
proof -
  let ?warned = "empty_env\<lparr>console := console empty_env @
      [(WARN, ''[EVENTS] Duplicate event_name: '' @ ''ping'')]\<rparr>"
  have b: "index (Events.events ping_registry) ''ping'' = Own (new_Event ''ping'' first_handler)"
    by (simp add: ping_registry_def index_def)
  note th = on_duplicate_first_wins
      [of ping_registry "''ping''" "new_Event ''ping'' first_handler" second_handler empty_env "[]"
          "[(''ping'', first_handler), (''ping'', second_handler)]" empty_env "''ping''"]
  from th b have dup: "on ''ping'' second_handler (ping_registry, empty_env) = (ping_registry, ?warned)"
    by blast
  from th b have em: "emit ''ping'' [] (on ''ping'' second_handler (ping_registry, empty_env)) =
      (case Event.action (new_Event ''ping'' first_handler) [] ?warned of
         (r, e') \<Rightarrow> (r, ping_registry, e'))"
    by blast
  from th have seq: "Events.events
         (fst (on_all [(''ping'', first_handler), (''ping'', second_handler)]
                 (new_Events, empty_env))) ''ping'' =
       (if ''ping'' \<in> set object_prototype_members then None
        else map_option (new_Event ''ping'')
               (map_of [(''ping'', first_handler), (''ping'', second_handler)] ''ping''))"
    by blast
  have w: "?warned = \<lparr>console = [(WARN, ''[EVENTS] Duplicate event_name: ping'')], replies = [],
      ext = []\<rparr>"
    by (simp add: empty_env_def)
  have 1: "on ''ping'' second_handler (ping_registry, empty_env) =
       (ping_registry,
        \<lparr>console = [(WARN, ''[EVENTS] Duplicate event_name: ping'')], replies = [], ext = []\<rparr>)"
    unfolding dup w ..
  have 2: "emit ''ping'' [] (on ''ping'' second_handler (ping_registry, empty_env)) =
       (Returns (Some 1), ping_registry,
        \<lparr>console = [(WARN, ''[EVENTS] Duplicate event_name: ping'')], replies = [],
         ext = [[''first'']]\<rparr>)"
    unfolding em w by (simp add: new_Event_def first_handler_def)
  have 3: "Events.events
         (fst (on_all [(''ping'', first_handler), (''ping'', second_handler)]
                 (new_Events, empty_env))) ''ping'' =
       Some (new_Event ''ping'' first_handler)"
    unfolding seq by (simp add: object_prototype_members_def)
  from b 1 2 3 show ?thesis by blast
qed

lemma emit_miss_logs_once:
  "index (Events.events E) n = Undefined \<Longrightarrow>
   emit n args (E, e) =
     (Returns None, E,
      e\<lparr>console := console e @ [(ERROR, ''No event named: '' @ n @ '' was found.'')]\<rparr>)"
  by (simp add: emit_miss logger_def)

lemma emit_inherited:
  "index (Events.events E) n = Inherited \<Longrightarrow>
   emit n args (E, e) = (Throws (JsError ''TypeError: event.execute is not a function''), E, e)"
  by (simp add: emit_def)

text \<open>
  C4, the code at the failing input. On a registry as the constructor leaves it, no
  handler is bound under \<^verbatim>\<open>toString\<close>, yet the read \<^verbatim>\<open>this.events['toString']\<close> finds the
  inherited method and is not \<^verbatim>\<open>undefined\<close>: the emit throws a TypeError and logs
  nothing. (For a name that is neither bound nor a member of \<^verbatim>\<open>Object.prototype\<close>,
  \<open>emit_miss_logs_once\<close> gives what the claim says.)
\<close>

theorem emit_inherited_name_throws:
  "emit ''toString'' [] (new_Events :: (Any, nat, string list list) Events, empty_env) =
     (Throws (JsError ''TypeError: event.execute is not a function''), new_Events, empty_env)"
  by (simp add: emit_def index_def new_Events_def object_prototype_members_def)

section \<open>Properties of System\<close>

lemma serialize_apply: "serialize this k = (if k = ''event_manager'' then None else this k)"
  by (simp add: serialize_def)

text \<open>
  C1, the code at the failing input. The field that holds the registry is \<^verbatim>\<open>events\<close>;
  \<^verbatim>\<open>serialize\<close> deletes \<^verbatim>\<open>event_manager\<close>, which no System has. For the example plugin
  with \<^verbatim>\<open>state\<close> 3 the snapshot is the whole instance, and its \<^verbatim>\<open>events\<close> field is
  the reference to the registry.
\<close>

theorem serialize_keeps_registry_reference:
  "serialize example_plugin = example_plugin
   \<and> serialize example_plugin ''events'' = Some (EventsRef 0)
   \<and> refers_to_registry (EventsRef 0)"
  by (simp add: serialize_def example_plugin_def refers_to_registry_def fun_eq_iff)

text \<open>
  C7. With the flag false the constructor only logs its line: the registry and the
  world are as before, no handler has run and no lookup miss is reported, so nothing
  was emitted. With the flag true and a handler bound under \<^verbatim>\<open>serialize::register\<close>,
  the environment after the constructor is that handler's, applied once to the name
  and the instance; with no handler bound, the one emit shows as its one lookup-miss
  line.
\<close>

theorem new_System_serialize_register:
  "new_System r n False (E, e) =
     (Returns [''events'' \<mapsto> EventsRef r, ''name'' \<mapsto> Str n], E,
      e\<lparr>console := console e @ [(LOG, ''[SYSTEM] Creating '' @ n @ '' System.'')]\<rparr>)
   \<and> (index (Events.events E) ''serialize::register'' = Own ev \<longrightarrow>
        new_System r n True (E, e) =
          (case Event.action ev [Str n, Obj [''events'' \<mapsto> EventsRef r, ''name'' \<mapsto> Str n]]
                  (e\<lparr>console := console e @ [(LOG, ''[SYSTEM] Creating '' @ n @ '' System.'')]\<rparr>)
           of (Returns res, e') \<Rightarrow> (Returns [''events'' \<mapsto> EventsRef r, ''name'' \<mapsto> Str n], E, e')
            | (Throws err, e') \<Rightarrow> (Throws err, E, e')))
   \<and> (index (Events.events E) ''serialize::register'' = Undefined \<longrightarrow>
        new_System r n True (E, e) =
          (Returns [''events'' \<mapsto> EventsRef r, ''name'' \<mapsto> Str n], E,
           e\<lparr>console := console e @
              [(LOG, ''[SYSTEM] Creating '' @ n @ '' System.''),
               (ERROR, ''No event named: serialize::register was found.'')]\<rparr>))"
  by (auto simp: new_System_def emit_def logger_def Event_execute_def Let_def
           split: prod.splits completion.splits)

theorem new_System_serialize_register_witness:
  "index (Events.events serializer_registry) ''serialize::register'' =
     Own (new_Event ''serialize::register'' recording_serializer)
   \<and> new_System 0 ''Example'' True (serializer_registry, no_emissions) =
       (Returns [''events'' \<mapsto> EventsRef 0, ''name'' \<mapsto> Str ''Example''], serializer_registry,
        \<lparr>console = [(LOG, ''[SYSTEM] Creating Example System.'')], replies = [],
         ext = [[Str ''Example'', Obj [''events'' \<mapsto> EventsRef 0, ''name'' \<mapsto> Str ''Example'']]]\<rparr>)
   \<and> new_System 0 ''Example'' False (serializer_registry, no_emissions) =
       (Returns [''events'' \<mapsto> EventsRef 0, ''name'' \<mapsto> Str ''Example''], serializer_registry,
        \<lparr>console = [(LOG, ''[SYSTEM] Creating Example System.'')], replies = [], ext = []\<rparr>)
   \<and> index (Events.events (new_Events :: (Any, nat, Any list list) Events)) ''serialize::register'' = Undefined
   \<and> new_System 0 ''Example'' True (new_Events :: (Any, nat, Any list list) Events, no_emissions) =
       (Returns [''events'' \<mapsto> EventsRef 0, ''name'' \<mapsto> Str ''Example''], new_Events,
        \<lparr>console = [(LOG, ''[SYSTEM] Creating Example System.''),
                    (ERROR, ''No event named: serialize::register was found.'')],
         replies = [], ext = []\<rparr>)"
proof -
  let ?ev = "new_Event ''serialize::register'' recording_serializer"
  let ?sys = "[''events'' \<mapsto> EventsRef 0, ''name'' \<mapsto> Str ''Example'']"
  let ?logged = "no_emissions\<lparr>console := console no_emissions @
      [(LOG, ''[SYSTEM] Creating '' @ ''Example'' @ '' System.'')]\<rparr>"
  have b: "index (Events.events serializer_registry) ''serialize::register'' = Own ?ev"
    by (simp add: serializer_registry_def index_def)
  have u: "index (Events.events (new_Events :: (Any, nat, Any list list) Events))
      ''serialize::register'' = Undefined"
    by (simp add: new_Events_def index_def object_prototype_members_def)
  note bound = new_System_serialize_register
      [of 0 "''Example''" serializer_registry no_emissions ?ev]
  note unbound = new_System_serialize_register
      [of 0 "''Example''" "new_Events :: (Any, nat, Any list list) Events" no_emissions ?ev]
  from bound have off: "new_System 0 ''Example'' False (serializer_registry, no_emissions) =
      (Returns ?sys, serializer_registry, ?logged)"
    by blast
  from bound b have on: "new_System 0 ''Example'' True (serializer_registry, no_emissions) =
      (case Event.action ?ev [Str ''Example'', Obj ?sys] ?logged of
         (Returns res, e') \<Rightarrow> (Returns ?sys, serializer_registry, e')
       | (Throws err, e') \<Rightarrow> (Throws err, serializer_registry, e'))"
    by blast
  from unbound u have miss:
    "new_System 0 ''Example'' True (new_Events :: (Any, nat, Any list list) Events, no_emissions) =
      (Returns ?sys, new_Events,
       no_emissions\<lparr>console := console no_emissions @
         [(LOG, ''[SYSTEM] Creating '' @ ''Example'' @ '' System.''),
          (ERROR, ''No event named: serialize::register was found.'')]\<rparr>)"
    by blast
  show ?thesis
    unfolding off on miss using b u
    by (simp add: no_emissions_def new_Event_def recording_serializer_def)
qed


lemma fold_assign:
  "fold (\<lambda>k this. assign k (f k) this) ks this k' =
     (if k' \<in> set ks \<and> \<not> to_setter k' this then Some (f k') else this k')"
proof (induction ks arbitrary: this)
  case Nil
  show ?case by simp
next
  case (Cons k ks)
  have s: "to_setter k' (assign k (f k) this) = (to_setter k' this)"
    by (auto simp: to_setter_def assign_def)
  have v: "assign k (f k) this k' =
      (if k' = k \<and> \<not> to_setter k' this then Some (f k') else this k')"
    by (auto simp: to_setter_def assign_def)
  have "fold (\<lambda>k this. assign k (f k) this) (k # ks) this k' =
      (if k' \<in> set ks \<and> \<not> to_setter k' this then Some (f k') else assign k (f k) this k')"
    by (simp add: Cons.IH s)
  also have "\<dots> = (if k' \<in> set (k # ks) \<and> \<not> to_setter k' this then Some (f k') else this k')"
    unfolding v by auto
  finally show ?case .
qed

lemma deserialize_fields:
  "deserialize obj this k =
     (if k \<in> set (Object_keys obj) \<and> \<not> to_setter k this then Some (get obj k) else this k)
   \<and> dom this \<subseteq> dom (deserialize obj this)
   \<and> dom (deserialize obj this) \<subseteq> dom this \<union> set (Object_keys obj)"
proof -
  have a: "deserialize obj this k =
     (if k \<in> set (Object_keys obj) \<and> \<not> to_setter k this then Some (get obj k) else this k)" for k
    by (simp add: deserialize_def fold_assign)
  have b: "dom this \<subseteq> dom (deserialize obj this)"
    by (auto simp: a)
  have c: "dom (deserialize obj this) \<subseteq> dom this \<union> set (Object_keys obj)"
    by (auto simp: a split: if_splits)
  from a b c show ?thesis by blast
qed

text \<open>
  C10, the code at the failing input. The snapshot has the key \<^verbatim>\<open>__proto__\<close>, as
  \<^verbatim>\<open>JSON.parse\<close> of a file can give it. The assignment \<^verbatim>\<open>this['__proto__'] = ...\<close> goes to
  the inherited setter: the instance gets no field of that name, while the other key of
  the snapshot is assigned. (\<open>deserialize_fields\<close> gives the fields after
  \<^verbatim>\<open>deserialize\<close> for every snapshot: apart from this key, what the claim says.)
\<close>

theorem deserialize_proto_key_makes_no_field:
  "''__proto__'' \<in> set (Object_keys [(''__proto__'', Obj [''admin'' \<mapsto> Bool True]), (''state'', Num 4)])
   \<and> deserialize [(''__proto__'', Obj [''admin'' \<mapsto> Bool True]), (''state'', Num 4)] example_plugin
        ''__proto__'' = None
   \<and> deserialize [(''__proto__'', Obj [''admin'' \<mapsto> Bool True]), (''state'', Num 4)] example_plugin
        ''state'' = Some (Num 4)"
  by (simp add: deserialize_def Object_keys_def get_def assign_def to_setter_def example_plugin_def)


section \<open>Properties of CommandManager\<close>

lemma split_spaces_nonempty: "split_spaces s \<noteq> []"
  by (cases s) (simp_all split: list.splits)

lemma slice_prefix: "slice (p @ s) (length p) = s"
  by (simp add: slice_def)

lemma startsWith_append: "startsWith (p @ s) p"
  by (simp add: startsWith_def)

lemma trim_whitespace:
  assumes "\<forall>ch \<in> set ws. is_whitespace ch"
  shows "trim ws = []"
proof -
  from assms have d: "dropWhile is_whitespace ws = []"
    by simp
  show ?thesis unfolding trim_def d by simp
qed

lemma table_read_own: "own t k = Some c \<Longrightarrow> table_read heap t k = Entry c"
  by (simp add: table_read_def)

lemma table_read_empty_name:
  "table_read heap t [] = (case own t [] of Some c \<Rightarrow> Entry c | None \<Rightarrow> Undefined_read)"
  by (simp add: table_read_def object_prototype_members_def split: option.splits)

lemma table_write_plain:
  "k \<noteq> ''__proto__'' \<Longrightarrow> \<not> getter_only t k \<Longrightarrow>
   table_write k c t = Returns (t\<lparr>own := (own t)(k \<mapsto> c)\<rparr>)"
  by (simp add: table_write_def split: option.splits)

lemma parse_unprefixed:
  "\<not> startsWith (content m) (prefix this) \<Longrightarrow> parse heap m (this, e) = (Returns (), this, e)"
  by (simp add: parse_def)

lemma parse_bot: "author_bot m \<Longrightarrow> parse heap m (this, e) = (Returns (), this, e)"
  by (simp add: parse_def)

lemma parse_unknown:
  "split_spaces (trim (slice (content m) (length (prefix this)))) = cmd # args \<Longrightarrow>
   table_read heap (commands this) cmd = Undefined_read \<Longrightarrow>
   parse heap m (this, e) = (Returns (), this, e)"
  by (simp add: parse_def shift_def)

lemma parse_dispatch:
  "startsWith (content m) (prefix this) \<Longrightarrow> \<not> author_bot m \<Longrightarrow>
   split_spaces (trim (slice (content m) (length (prefix this)))) = cmd # args \<Longrightarrow>
   table_read heap (commands this) cmd = Entry c \<Longrightarrow>
   parse heap m (this, e) =
     (case Command.action (heap c) (CommandManager.events this) m args
             (this, e\<lparr>console := console e @ [(LOG, ''[COMMANDS] Executing: '' @ cmd)]\<rparr>)
      of (Returns u, this', e') \<Rightarrow> (Returns (), this', e')
       | (Throws err, this', e') \<Rightarrow>
           (case toString err of
              Returns d \<Rightarrow>
                (Returns (), this',
                 e'\<lparr>console := console e' @ [(ERROR, inspect err)],
                    replies := replies e' @ [(m, d)]\<rparr>)
            | Throws type_error \<Rightarrow>
                (Throws type_error, this',
                 e'\<lparr>console := console e' @ [(ERROR, inspect err)]\<rparr>)))"
  by (simp add: parse_def shift_def try_catch_def catch_block_def Command_execute_def logger_def
        reply_def split: prod.splits completion.splits)

lemma parse_other:
  "startsWith (content m) (prefix this) \<Longrightarrow> \<not> author_bot m \<Longrightarrow>
   split_spaces (trim (slice (content m) (length (prefix this)))) = cmd # args \<Longrightarrow>
   table_read heap (commands this) cmd = Other \<Longrightarrow>
   parse heap m (this, e) =
     (Returns (), this,
      e\<lparr>console := console e @
           [(LOG, ''[COMMANDS] Executing: '' @ cmd),
            (ERROR, ''TypeError: this.commands[command].execute is not a function'')],
        replies := replies e @
           [(m, ''TypeError: this.commands[command].execute is not a function'')]\<rparr>)"
  by (simp add: parse_def shift_def try_catch_def catch_block_def logger_def reply_def)

lemma parse_ignores:
  "(\<not> startsWith (content m) (prefix this) \<longrightarrow> parse heap m (this, e) = (Returns (), this, e))
   \<and> (author_bot m \<longrightarrow> parse heap m (this, e) = (Returns (), this, e))
   \<and> (split_spaces (trim (slice (content m) (length (prefix this)))) = cmd # args
        \<and> table_read heap (commands this) cmd = Undefined_read \<longrightarrow>
        parse heap m (this, e) = (Returns (), this, e))"
  using parse_unprefixed parse_bot parse_unknown by blast

lemma add_unnamed:
  "Command.name (heap c) = None \<Longrightarrow> add heap c (this, e) = (Returns (), this, e)"
  by (simp add: add_def)

lemma add_named:
  "Command.name (heap c) = Some n \<Longrightarrow> n \<noteq> ''__proto__'' \<Longrightarrow> \<not> getter_only (commands this) n \<Longrightarrow>
   add heap c (this, e) =
     (Returns (), this\<lparr>commands := (commands this)\<lparr>own := (own (commands this))(n \<mapsto> c)\<rparr>\<rparr>,
      e\<lparr>console := console e @ [(DEBUG, n)]\<rparr>)"
  by (simp add: add_def table_write_plain logger_def)

lemma add_proto:
  "Command.name (heap c) = Some ''__proto__'' \<Longrightarrow> own (commands this) ''__proto__'' = None \<Longrightarrow>
   add heap c (this, e) =
     (Returns (), this\<lparr>commands := (commands this)\<lparr>proto := Some c\<rparr>\<rparr>,
      e\<lparr>console := console e @ [(DEBUG, ''__proto__'')]\<rparr>)"
  by (simp add: add_def table_write_def logger_def)

lemma add_getter_only:
  "Command.name (heap c) = Some n \<Longrightarrow> getter_only (commands this) n \<Longrightarrow>
   add heap c (this, e) =
     (Throws (JsError (''TypeError: Cannot set property '' @ n @
                        '' of #<Object> which has only a getter'')),
      this, e\<lparr>console := console e @ [(DEBUG, n)]\<rparr>)"
  by (auto simp: add_def table_write_def logger_def getter_only_def)

lemma example_tokens:
  "split_spaces (trim (slice (content (human (''!'' @ w))) (length (prefix example_manager)))) =
     split_spaces (trim w)"
  by (simp add: human_def example_manager_def slice_def)






text \<open>
  C5 as stated fails: \<^verbatim>\<open>split(/ +/)\<close> separates at runs of the space character only.
  For the content \<^verbatim>\<open>!echo a<TAB>b\<close> the action of \<^verbatim>\<open>echo\<close> is called with the single
  argument \<^verbatim>\<open>a<TAB>b\<close>, while the pieces between runs of white space would be
  \<^verbatim>\<open>a\<close> and \<^verbatim>\<open>b\<close>.
\<close>

theorem parse_tab_is_no_separator:
  "ext (snd (snd (parse example_heap (human (''!echo a'' @ [CHR 0x09] @ ''b''))
                    (example_manager, empty_env)))) =
     [[''a'' @ [CHR 0x09] @ ''b'']]
   \<and> tl (split_whitespace (trim (slice (''!echo a'' @ [CHR 0x09] @ ''b'') (length ''!'')))) =
     [''a'', ''b'']"
proof -
  let ?m = "human (''!echo a'' @ [CHR 0x09] @ ''b'')"
  have 1: "startsWith (content ?m) (prefix example_manager)"
    by (simp add: startsWith_def human_def example_manager_def)
  have 2: "\<not> author_bot ?m" by (simp add: human_def)
  have 3: "split_spaces (trim (slice (content ?m) (length (prefix example_manager)))) =
      ''echo'' # [''a'' @ [CHR 0x09] @ ''b'']"
    by (simp add: human_def example_manager_def slice_def trim_def is_whitespace_def)
  have 4: "table_read example_heap (commands example_manager) ''echo'' = Entry 0"
    by (simp add: example_manager_def table_read_def)
  note run = parse_dispatch [OF 1 2 3 4, of empty_env]
  have "ext (snd (snd (parse example_heap ?m (example_manager, empty_env)))) =
      [[''a'' @ [CHR 0x09] @ ''b'']]"
    unfolding run by (simp add: example_heap_def new_Command_def record_args_def empty_env_def)
  moreover have "tl (split_whitespace (trim (slice (''!echo a'' @ [CHR 0x09] @ ''b'') (length ''!'')))) =
     [''a'', ''b'']"
    by (simp add: slice_def trim_def is_whitespace_def)
  ultimately show ?thesis by simp
qed

text \<open>
  C5, amended. For a message of a human author whose content starts with the prefix,
  the text after the prefix, trimmed, is split at runs of the space character; there is
  always a first piece, the command name. If the table gives a Command for it, the result
  of \<^verbatim>\<open>parse\<close> is that of one call of its action with the event manager, the message
  and the remaining pieces (followed by the \<^verbatim>\<open>catch\<close> block when the action throws).
  After any prefix, \<^verbatim>\<open>echo hello world\<close> gives the name \<^verbatim>\<open>echo\<close> with the arguments
  \<^verbatim>\<open>hello\<close>, \<^verbatim>\<open>world\<close>, and \<^verbatim>\<open>ping\<close> gives the name \<^verbatim>\<open>ping\<close> with no argument.
\<close>

theorem parse_dispatches_space_separated:
  assumes "startsWith (content m) (prefix this)" and "\<not> author_bot m"
  shows "(\<exists>cmd args.
            split_spaces (trim (slice (content m) (length (prefix this)))) = cmd # args
            \<and> (\<forall>c. table_read heap (commands this) cmd = Entry c \<longrightarrow>
                  parse heap m (this, e) =
                    (case Command.action (heap c) (CommandManager.events this) m args
                            (this, e\<lparr>console := console e @ [(LOG, ''[COMMANDS] Executing: '' @ cmd)]\<rparr>)
                     of (Returns u, this', e') \<Rightarrow> (Returns (), this', e')
                      | (Throws err, this', e') \<Rightarrow>
                          (case toString err of
                             Returns d \<Rightarrow>
                               (Returns (), this',
                                e'\<lparr>console := console e' @ [(ERROR, inspect err)],
                                   replies := replies e' @ [(m, d)]\<rparr>)
                           | Throws type_error \<Rightarrow>
                               (Throws type_error, this',
                                e'\<lparr>console := console e' @ [(ERROR, inspect err)]\<rparr>)))))
         \<and> split_spaces (trim (slice (p @ ''echo hello world'') (length p))) =
             [''echo'', ''hello'', ''world'']
         \<and> split_spaces (trim (slice (p @ ''ping'') (length p))) = [''ping'']"
proof -
  obtain cmd args where toks:
    "split_spaces (trim (slice (content m) (length (prefix this)))) = cmd # args"
    using split_spaces_nonempty by (meson neq_Nil_conv)
  have first: "\<exists>cmd args.
            split_spaces (trim (slice (content m) (length (prefix this)))) = cmd # args
            \<and> (\<forall>c. table_read heap (commands this) cmd = Entry c \<longrightarrow>
                  parse heap m (this, e) =
                    (case Command.action (heap c) (CommandManager.events this) m args
                            (this, e\<lparr>console := console e @ [(LOG, ''[COMMANDS] Executing: '' @ cmd)]\<rparr>)
                     of (Returns u, this', e') \<Rightarrow> (Returns (), this', e')
                      | (Throws err, this', e') \<Rightarrow>
                          (case toString err of
                             Returns d \<Rightarrow>
                               (Returns (), this',
                                e'\<lparr>console := console e' @ [(ERROR, inspect err)],
                                   replies := replies e' @ [(m, d)]\<rparr>)
                           | Throws type_error \<Rightarrow>
                               (Throws type_error, this',
                                e'\<lparr>console := console e' @ [(ERROR, inspect err)]\<rparr>))))"
    using parse_dispatch [OF assms toks] toks by blast
  have echo: "split_spaces (trim (slice (p @ ''echo hello world'') (length p))) =
             [''echo'', ''hello'', ''world'']"
    by (simp add: slice_prefix trim_def is_whitespace_def)
  have ping: "split_spaces (trim (slice (p @ ''ping'') (length p))) = [''ping'']"
    by (simp add: slice_prefix trim_def is_whitespace_def)
  from first echo ping show ?thesis by blast
qed

theorem parse_dispatches_space_separated_witness:
  "startsWith (content (human ''!echo hello world'')) (prefix example_manager)
   \<and> \<not> author_bot (human ''!echo hello world'')
   \<and> table_read example_heap (commands example_manager) ''echo'' = Entry 0
   \<and> parse example_heap (human ''!echo hello world'') (example_manager, empty_env) =
       (Returns (), example_manager,
        \<lparr>console = [(LOG, ''[COMMANDS] Executing: echo'')], replies = [],
         ext = [[''hello'', ''world'']]\<rparr>)"
proof -
  let ?m = "human ''!echo hello world''"
  have 1: "startsWith (content ?m) (prefix example_manager)"
    by (simp add: startsWith_def human_def example_manager_def)
  have 2: "\<not> author_bot ?m" by (simp add: human_def)
  have 3: "split_spaces (trim (slice (content ?m) (length (prefix example_manager)))) =
      [''echo'', ''hello'', ''world'']"
    by (simp add: human_def example_manager_def slice_def trim_def is_whitespace_def)
  have 4: "table_read example_heap (commands example_manager) ''echo'' = Entry 0"
    by (simp add: example_manager_def table_read_def)
  from parse_dispatches_space_separated [OF 1 2, of example_heap empty_env]
  obtain cmd args where
    toks: "split_spaces (trim (slice (content ?m) (length (prefix example_manager)))) = cmd # args"
    and run: "\<forall>c. table_read example_heap (commands example_manager) cmd = Entry c \<longrightarrow>
          parse example_heap ?m (example_manager, empty_env) =
            (case Command.action (example_heap c) (CommandManager.events example_manager) ?m args
                    (example_manager,
                     empty_env\<lparr>console := console empty_env @ [(LOG, ''[COMMANDS] Executing: '' @ cmd)]\<rparr>)
             of (Returns u, this', e') \<Rightarrow> (Returns (), this', e')
              | (Throws err, this', e') \<Rightarrow>
                  (case toString err of
                     Returns d \<Rightarrow>
                       (Returns (), this',
                        e'\<lparr>console := console e' @ [(ERROR, inspect err)],
                           replies := replies e' @ [(?m, d)]\<rparr>)
                   | Throws type_error \<Rightarrow>
                       (Throws type_error, this',
                        e'\<lparr>console := console e' @ [(ERROR, inspect err)]\<rparr>)))"
    by blast
  from toks 3 have cmd: "cmd = ''echo''" and args: "args = [''hello'', ''world'']" by simp_all
  from run 4 have "parse example_heap ?m (example_manager, empty_env) =
            (case Command.action (example_heap 0) (CommandManager.events example_manager) ?m args
                    (example_manager,
                     empty_env\<lparr>console := console empty_env @ [(LOG, ''[COMMANDS] Executing: '' @ cmd)]\<rparr>)
             of (Returns u, this', e') \<Rightarrow> (Returns (), this', e')
              | (Throws err, this', e') \<Rightarrow>
                  (case toString err of
                     Returns d \<Rightarrow>
                       (Returns (), this',
                        e'\<lparr>console := console e' @ [(ERROR, inspect err)],
                           replies := replies e' @ [(?m, d)]\<rparr>)
                   | Throws type_error \<Rightarrow>
                       (Throws type_error, this',
                        e'\<lparr>console := console e' @ [(ERROR, inspect err)]\<rparr>)))"
    unfolding cmd by blast
  then have 5: "parse example_heap ?m (example_manager, empty_env) =
       (Returns (), example_manager,
        \<lparr>console = [(LOG, ''[COMMANDS] Executing: echo'')], replies = [],
         ext = [[''hello'', ''world'']]\<rparr>)"
    by (simp add: cmd args example_heap_def new_Command_def record_args_def empty_env_def)
  from 1 2 4 5 show ?thesis by blast
qed

lemma add_inserts_by_name:
  "(Command.name (heap c) = None \<longrightarrow> add heap c (this, e) = (Returns (), this, e))
   \<and> (Command.name (heap c) = Some n \<and> n \<noteq> ''__proto__'' \<and> \<not> getter_only (commands this) n \<longrightarrow>
        add heap c (this, e) =
          (Returns (),
           this\<lparr>commands := (commands this)\<lparr>own := (own (commands this))(n \<mapsto> c)\<rparr>\<rparr>,
           e\<lparr>console := console e @ [(DEBUG, n)]\<rparr>)
        \<and> table_read heap (commands (fst (snd (add heap c (this, e))))) n = Entry c)
   \<and> (Command.name (heap c1) = Some n \<and> Command.name (heap c2) = Some n
        \<and> n \<noteq> ''__proto__'' \<and> \<not> getter_only (commands this) n \<longrightarrow>
        commands (fst (snd (add heap c2 (snd (add heap c1 (this, e)))))) =
          (commands this)\<lparr>own := (own (commands this))(n \<mapsto> c2)\<rparr>
        \<and> commands (fst (snd (add heap c2 (snd (add heap c1 (this, e)))))) =
            commands (fst (snd (add heap c2 (this, e)))))"
proof -
  have one: "add heap c (this, e) =
          (Returns (),
           this\<lparr>commands := (commands this)\<lparr>own := (own (commands this))(n \<mapsto> c)\<rparr>\<rparr>,
           e\<lparr>console := console e @ [(DEBUG, n)]\<rparr>)
        \<and> table_read heap (commands (fst (snd (add heap c (this, e))))) n = Entry c"
    if "Command.name (heap c) = Some n" "n \<noteq> ''__proto__''" "\<not> getter_only (commands this) n"
    using that by (simp add: add_named table_read_own)
  have two: "commands (fst (snd (add heap c2 (snd (add heap c1 (this, e)))))) =
          (commands this)\<lparr>own := (own (commands this))(n \<mapsto> c2)\<rparr>
        \<and> commands (fst (snd (add heap c2 (snd (add heap c1 (this, e)))))) =
            commands (fst (snd (add heap c2 (this, e))))"
    if n1: "Command.name (heap c1) = Some n" and n2: "Command.name (heap c2) = Some n"
      and p: "n \<noteq> ''__proto__''" and g: "\<not> getter_only (commands this) n"
  proof -
    let ?this1 = "this\<lparr>commands := (commands this)\<lparr>own := (own (commands this))(n \<mapsto> c1)\<rparr>\<rparr>"
    have g1: "\<not> getter_only (commands ?this1) n"
      by (simp add: getter_only_def)
    have "add heap c2 (snd (add heap c1 (this, e))) =
        (Returns (),
         ?this1\<lparr>commands := (commands ?this1)\<lparr>own := (own (commands ?this1))(n \<mapsto> c2)\<rparr>\<rparr>,
         (e\<lparr>console := console e @ [(DEBUG, n)]\<rparr>)\<lparr>console :=
            console (e\<lparr>console := console e @ [(DEBUG, n)]\<rparr>) @ [(DEBUG, n)]\<rparr>)"
      unfolding add_named [of heap c1 n this e, OF n1 p g] snd_conv
      by (rule add_named [of heap c2 n ?this1, OF n2 p g1])
    then show ?thesis
      by (simp add: add_named [of heap c2 n this e, OF n2 p g])
  qed
  from one two add_unnamed [of heap c this e] show ?thesis by blast
qed

lemma add_inserts_by_name_example:
  "Command.name (example_heap 10) = None
   \<and> add example_heap 10 (example_manager, empty_env) = (Returns (), example_manager, empty_env)
   \<and> Command.name (example_heap 0) = Some ''echo''
   \<and> Command.name (example_heap 6) = Some ''echo''
   \<and> ''echo'' \<noteq> ''__proto__''
   \<and> \<not> getter_only (commands example_manager) ''echo''
   \<and> table_read example_heap
         (commands (fst (snd (add example_heap 6 (example_manager, empty_env))))) ''echo'' = Entry 6
   \<and> \<not> getter_only new_CommandTable ''echo''
   \<and> commands (fst (snd (add example_heap 6
         (snd (add example_heap 0 (example_manager\<lparr>commands := new_CommandTable\<rparr>, empty_env)))))) =
       \<lparr>own = [''echo'' \<mapsto> 6], proto = None\<rparr>"
proof -
  let ?bare = "example_manager\<lparr>commands := new_CommandTable\<rparr>"
  have n10: "Command.name (example_heap 10) = None" by (simp add: example_heap_def)
  have n0: "Command.name (example_heap 0) = Some ''echo''"
    by (simp add: example_heap_def new_Command_def)
  have n6: "Command.name (example_heap 6) = Some ''echo''"
    by (simp add: example_heap_def new_Command_def)
  have p: "''echo'' \<noteq> ''__proto__''" by simp
  have g: "\<not> getter_only (commands example_manager) ''echo''"
    by (simp add: getter_only_def)
  have gb: "\<not> getter_only new_CommandTable ''echo''"
    by (simp add: getter_only_def)
  have gb': "\<not> getter_only (commands ?bare) ''echo''"
    by (simp add: getter_only_def)
  from add_inserts_by_name [of example_heap 10 example_manager empty_env] n10
  have a: "add example_heap 10 (example_manager, empty_env) = (Returns (), example_manager, empty_env)"
    by blast
  from add_inserts_by_name [of example_heap 6 example_manager empty_env "''echo''"] n6 p g
  have b: "table_read example_heap
         (commands (fst (snd (add example_heap 6 (example_manager, empty_env))))) ''echo'' = Entry 6"
    by blast
  from add_inserts_by_name [of example_heap 6 ?bare empty_env "''echo''" 0 6] n0 n6 p gb'
  have "commands (fst (snd (add example_heap 6 (snd (add example_heap 0 (?bare, empty_env)))))) =
      (commands ?bare)\<lparr>own := (own (commands ?bare))(''echo'' \<mapsto> 6)\<rparr>"
    by blast
  then have c: "commands (fst (snd (add example_heap 6 (snd (add example_heap 0 (?bare, empty_env)))))) =
      \<lparr>own = [''echo'' \<mapsto> 6], proto = None\<rparr>"
    by (simp add: new_CommandTable_def)
  from n10 a n0 n6 p g b gb c show ?thesis by blast
qed

text \<open>
  C6, the code at the failing input. For a Command named \<^verbatim>\<open>__proto__\<close> the write
  \<^verbatim>\<open>this.commands[command.name] = command\<close> goes to the inherited setter: \<^verbatim>\<open>add\<close> returns,
  no entry is made under the name, the Command is now the prototype of the table, and a
  name that read as \<^verbatim>\<open>undefined\<close> before (\<^verbatim>\<open>execute\<close>) reads as defined. On that table
  the \<^verbatim>\<open>add\<close> of a Command named \<^verbatim>\<open>name\<close> meets the getter of the class and throws a
  TypeError, and nothing is inserted. (For every name other than \<^verbatim>\<open>__proto__\<close> that
  meets no such getter, \<open>add_inserts_by_name\<close> gives what the claim says.)
\<close>

theorem add_proto_name_is_not_inserted:
  "Command.name (example_heap 8) = Some ''__proto__''
   \<and> add example_heap 8 (example_manager, empty_env) =
       (Returns (),
        example_manager\<lparr>commands := (commands example_manager)\<lparr>proto := Some 8\<rparr>\<rparr>,
        \<lparr>console = [(DEBUG, ''__proto__'')], replies = [], ext = []\<rparr>)
   \<and> own (commands (fst (snd (add example_heap 8 (example_manager, empty_env))))) ''__proto__'' = None
   \<and> table_read example_heap (commands example_manager) ''execute'' = Undefined_read
   \<and> table_read example_heap
         (commands (fst (snd (add example_heap 8 (example_manager, empty_env))))) ''execute'' = Other
   \<and> Command.name (example_heap 9) = Some ''name''
   \<and> add example_heap 9 (snd (add example_heap 8 (example_manager, empty_env))) =
       (Throws (JsError ''TypeError: Cannot set property name of #<Object> which has only a getter''),
        example_manager\<lparr>commands := (commands example_manager)\<lparr>proto := Some 8\<rparr>\<rparr>,
        \<lparr>console = [(DEBUG, ''__proto__''), (DEBUG, ''name'')], replies = [], ext = []\<rparr>)"
proof -
  let ?polluted = "example_manager\<lparr>commands := (commands example_manager)\<lparr>proto := Some 8\<rparr>\<rparr>"
  let ?logged = "\<lparr>console = [(DEBUG, ''__proto__'')], replies = [], ext = [] :: string list list\<rparr>"
  have n8: "Command.name (example_heap 8) = Some ''__proto__''"
    by (simp add: example_heap_def new_Command_def)
  have n9: "Command.name (example_heap 9) = Some ''name''"
    by (simp add: example_heap_def new_Command_def)
  have o: "own (commands example_manager) ''__proto__'' = None"
    by (simp add: example_manager_def)
  have a: "add example_heap 8 (example_manager, empty_env) = (Returns (), ?polluted, ?logged)"
    unfolding add_proto [of example_heap 8 example_manager empty_env, OF n8 o] by (simp add: empty_env_def)
  have b: "own (commands (fst (snd (add example_heap 8 (example_manager, empty_env))))) ''__proto__'' = None"
    unfolding a by (simp add: example_manager_def)
  have c: "table_read example_heap (commands example_manager) ''execute'' = Undefined_read"
    by (simp add: table_read_def example_manager_def object_prototype_members_def)
  have d: "table_read example_heap
         (commands (fst (snd (add example_heap 8 (example_manager, empty_env))))) ''execute'' = Other"
    unfolding a by (simp add: table_read_def example_manager_def)
  have g: "getter_only (commands ?polluted) ''name''"
    by (simp add: getter_only_def example_manager_def)
  have f: "add example_heap 9 (snd (add example_heap 8 (example_manager, empty_env))) =
       (Throws (JsError ''TypeError: Cannot set property name of #<Object> which has only a getter''),
        ?polluted,
        \<lparr>console = [(DEBUG, ''__proto__''), (DEBUG, ''name'')], replies = [], ext = []\<rparr>)"
    unfolding a snd_conv add_getter_only [of example_heap 9 "''name''" ?polluted ?logged, OF n9 g] by simp
  from n8 a b c d n9 f show ?thesis by blast
qed

text \<open>
  C8, the code at the failing input. No command named \<^verbatim>\<open>constructor\<close> is registered,
  yet \<^verbatim>\<open>this.commands['constructor']\<close> reads the inherited member and is not
  \<^verbatim>\<open>undefined\<close>: \<^verbatim>\<open>parse\<close> logs the execution, the call of the missing \<^verbatim>\<open>execute\<close>
  throws, and the error is logged and sent as a reply. (For a message without the
  prefix, from a bot, or naming a command for which the table read is \<^verbatim>\<open>undefined\<close>,
  \<open>parse_ignores\<close> gives what the claim says.)
\<close>

theorem parse_unregistered_inherited_name_replies:
  "own (commands example_manager) ''constructor'' = None
   \<and> parse example_heap (human ''!constructor'') (example_manager, empty_env) =
       (Returns (), example_manager,
        \<lparr>console = [(LOG, ''[COMMANDS] Executing: constructor''),
                    (ERROR, ''TypeError: this.commands[command].execute is not a function'')],
         replies = [(human ''!constructor'',
                     ''TypeError: this.commands[command].execute is not a function'')],
         ext = []\<rparr>)"
proof -
  let ?m = "human ''!constructor''"
  have 0: "own (commands example_manager) ''constructor'' = None"
    by (simp add: example_manager_def)
  have 1: "startsWith (content ?m) (prefix example_manager)"
    by (simp add: startsWith_def human_def example_manager_def)
  have 2: "\<not> author_bot ?m" by (simp add: human_def)
  have 3: "split_spaces (trim (slice (content ?m) (length (prefix example_manager)))) =
      ''constructor'' # []"
    by (simp add: human_def example_manager_def slice_def trim_def is_whitespace_def)
  have 4: "table_read example_heap (commands example_manager) ''constructor'' = Other"
    by (simp add: example_manager_def table_read_def object_prototype_members_def)
  note run = parse_other [OF 1 2 3 4, of empty_env]
  have "parse example_heap ?m (example_manager, empty_env) =
       (Returns (), example_manager,
        \<lparr>console = [(LOG, ''[COMMANDS] Executing: constructor''),
                    (ERROR, ''TypeError: this.commands[command].execute is not a function'')],
         replies = [(?m, ''TypeError: this.commands[command].execute is not a function'')],
         ext = []\<rparr>)"
    unfolding run by (simp add: empty_env_def)
  with 0 show ?thesis by simp
qed

text \<open>
  C9. \<^verbatim>\<open>add\<close> stores a Command whose name is the empty string. For a message of a human
  author whose content is the prefix followed by white space only (or by nothing), the
  command name that \<^verbatim>\<open>parse\<close> computes is the empty string, with no arguments: a
  Command registered under the empty name is run, and without one the message is
  ignored.
\<close>

theorem empty_command_name:
  "(Command.name (heap c) = Some [] \<longrightarrow>
      add heap c (this, e) =
        (Returns (),
         this\<lparr>commands := (commands this)\<lparr>own := (own (commands this))([] \<mapsto> c)\<rparr>\<rparr>,
         e\<lparr>console := console e @ [(DEBUG, [])]\<rparr>))
   \<and> (content m = prefix this @ ws \<and> (\<forall>ch \<in> set ws. is_whitespace ch) \<and> \<not> author_bot m \<longrightarrow>
        shift (split_spaces (trim (slice (content m) (length (prefix this))))) = (Some [], [])
        \<and> (\<forall>c'. own (commands this) [] = Some c' \<longrightarrow>
              parse heap m (this, e) =
                (case Command.action (heap c') (CommandManager.events this) m []
                        (this, e\<lparr>console := console e @ [(LOG, ''[COMMANDS] Executing: '')]\<rparr>)
                 of (Returns u, this', e') \<Rightarrow> (Returns (), this', e')
                  | (Throws err, this', e') \<Rightarrow>
                      (case toString err of
                         Returns d \<Rightarrow>
                           (Returns (), this',
                            e'\<lparr>console := console e' @ [(ERROR, inspect err)],
                               replies := replies e' @ [(m, d)]\<rparr>)
                       | Throws type_error \<Rightarrow>
                           (Throws type_error, this',
                            e'\<lparr>console := console e' @ [(ERROR, inspect err)]\<rparr>))))
        \<and> (own (commands this) [] = None \<longrightarrow> parse heap m (this, e) = (Returns (), this, e)))"
proof -
  have g: "\<not> getter_only (commands this) []"
    by (simp add: getter_only_def)
  have a: "Command.name (heap c) = Some [] \<longrightarrow>
      add heap c (this, e) =
        (Returns (),
         this\<lparr>commands := (commands this)\<lparr>own := (own (commands this))([] \<mapsto> c)\<rparr>\<rparr>,
         e\<lparr>console := console e @ [(DEBUG, [])]\<rparr>)"
    using g by (simp add: add_named)
  have b: "shift (split_spaces (trim (slice (content m) (length (prefix this))))) = (Some [], [])
        \<and> (\<forall>c'. own (commands this) [] = Some c' \<longrightarrow>
              parse heap m (this, e) =
                (case Command.action (heap c') (CommandManager.events this) m []
                        (this, e\<lparr>console := console e @ [(LOG, ''[COMMANDS] Executing: '')]\<rparr>)
                 of (Returns u, this', e') \<Rightarrow> (Returns (), this', e')
                  | (Throws err, this', e') \<Rightarrow>
                      (case toString err of
                         Returns d \<Rightarrow>
                           (Returns (), this',
                            e'\<lparr>console := console e' @ [(ERROR, inspect err)],
                               replies := replies e' @ [(m, d)]\<rparr>)
                       | Throws type_error \<Rightarrow>
                           (Throws type_error, this',
                            e'\<lparr>console := console e' @ [(ERROR, inspect err)]\<rparr>))))
        \<and> (own (commands this) [] = None \<longrightarrow> parse heap m (this, e) = (Returns (), this, e))"
    if m: "content m = prefix this @ ws" and ws: "\<forall>ch \<in> set ws. is_whitespace ch"
      and human: "\<not> author_bot m"
  proof -
    have sw: "startsWith (content m) (prefix this)"
      by (simp add: m startsWith_append)
    have toks: "split_spaces (trim (slice (content m) (length (prefix this)))) = [] # []"
      by (simp add: m slice_prefix trim_whitespace [OF ws])
    have 1: "shift (split_spaces (trim (slice (content m) (length (prefix this))))) = (Some [], [])"
      by (simp add: toks shift_def)
    have 2: "parse heap m (this, e) =
                (case Command.action (heap c') (CommandManager.events this) m []
                        (this, e\<lparr>console := console e @ [(LOG, ''[COMMANDS] Executing: '')]\<rparr>)
                 of (Returns u, this', e') \<Rightarrow> (Returns (), this', e')
                  | (Throws err, this', e') \<Rightarrow>
                      (case toString err of
                         Returns d \<Rightarrow>
                           (Returns (), this',
                            e'\<lparr>console := console e' @ [(ERROR, inspect err)],
                               replies := replies e' @ [(m, d)]\<rparr>)
                       | Throws type_error \<Rightarrow>
                           (Throws type_error, this',
                            e'\<lparr>console := console e' @ [(ERROR, inspect err)]\<rparr>)))"
      if "own (commands this) [] = Some c'" for c'
      using parse_dispatch [OF sw human toks, of heap c' e] that by (simp add: table_read_own)
    have 3: "parse heap m (this, e) = (Returns (), this, e)" if "own (commands this) [] = None"
      using parse_unknown [OF toks, of heap e] that by (simp add: table_read_empty_name)
    from 1 2 3 show ?thesis by blast
  qed
  from a b show ?thesis by blast
qed

theorem empty_command_name_witness:
  "Command.name (example_heap 7) = Some []
   \<and> add example_heap 7 (example_manager, empty_env) =
       (Returns (),
        example_manager\<lparr>commands :=
          (commands example_manager)\<lparr>own := (own (commands example_manager))([] \<mapsto> 7)\<rparr>\<rparr>,
        \<lparr>console = [(DEBUG, [])], replies = [], ext = []\<rparr>)
   \<and> content (human ''! '') = prefix example_manager @ '' ''
   \<and> is_whitespace (CHR '' '')
   \<and> \<not> author_bot (human ''! '')
   \<and> parse example_heap (human ''! '')
         (example_manager\<lparr>commands :=
            (commands example_manager)\<lparr>own := (own (commands example_manager))([] \<mapsto> 7)\<rparr>\<rparr>,
          empty_env) =
       (Returns (),
        example_manager\<lparr>commands :=
          (commands example_manager)\<lparr>own := (own (commands example_manager))([] \<mapsto> 7)\<rparr>\<rparr>,
        \<lparr>console = [(LOG, ''[COMMANDS] Executing: '')], replies = [], ext = [[]]\<rparr>)
   \<and> own (commands example_manager) [] = None
   \<and> parse example_heap (human ''! '') (example_manager, empty_env) =
       (Returns (), example_manager, empty_env)"
proof -
  let ?m = "human ''! ''"
  let ?with = "example_manager\<lparr>commands :=
          (commands example_manager)\<lparr>own := (own (commands example_manager))([] \<mapsto> 7)\<rparr>\<rparr>"
  have n: "Command.name (example_heap 7) = Some []"
    by (simp add: example_heap_def new_Command_def)
  have c: "content ?m = prefix example_manager @ '' ''"
    by (simp add: human_def example_manager_def)
  have c': "content ?m = prefix ?with @ '' ''"
    by (simp add: human_def example_manager_def)
  have sp: "is_whitespace (CHR '' '')"
    by (simp add: is_whitespace_def)
  then have w: "\<forall>ch \<in> set '' ''. is_whitespace ch"
    by simp
  have h: "\<not> author_bot ?m" by (simp add: human_def)
  have r: "own (commands ?with) [] = Some 7" by simp
  have u: "own (commands example_manager) [] = None" by (simp add: example_manager_def)
  from empty_command_name [of example_heap 7 example_manager empty_env ?m "'' ''"] n
  have "add example_heap 7 (example_manager, empty_env) =
      (Returns (), ?with, empty_env\<lparr>console := console empty_env @ [(DEBUG, [])]\<rparr>)"
    by blast
  then have 1: "add example_heap 7 (example_manager, empty_env) =
      (Returns (), ?with, \<lparr>console = [(DEBUG, [])], replies = [], ext = []\<rparr>)"
    by (simp add: empty_env_def)
  from empty_command_name [of example_heap 7 ?with empty_env ?m "'' ''"] c' w h r
  have "parse example_heap ?m (?with, empty_env) =
      (case Command.action (example_heap 7) (CommandManager.events ?with) ?m []
              (?with, empty_env\<lparr>console := console empty_env @ [(LOG, ''[COMMANDS] Executing: '')]\<rparr>)
       of (Returns u, this', e') \<Rightarrow> (Returns (), this', e')
        | (Throws err, this', e') \<Rightarrow>
            (case toString err of
               Returns d \<Rightarrow>
                 (Returns (), this',
                  e'\<lparr>console := console e' @ [(ERROR, inspect err)],
                     replies := replies e' @ [(?m, d)]\<rparr>)
             | Throws type_error \<Rightarrow>
                 (Throws type_error, this',
                  e'\<lparr>console := console e' @ [(ERROR, inspect err)]\<rparr>)))"
    by blast
  then have 2: "parse example_heap ?m (?with, empty_env) =
      (Returns (), ?with,
       \<lparr>console = [(LOG, ''[COMMANDS] Executing: '')], replies = [], ext = [[]]\<rparr>)"
    by (simp add: example_heap_def new_Command_def record_args_def empty_env_def)
  from empty_command_name [of example_heap 7 example_manager empty_env ?m "'' ''"] c w h u
  have 3: "parse example_heap ?m (example_manager, empty_env) = (Returns (), example_manager, empty_env)"
    by blast
  from n 1 c sp h 2 u 3 show ?thesis by blast
qed

end
